theory Spec2Isabelle
  imports Complex_Main
begin

section \<open>The SDC plugin: data model\<close>

text \<open>
  The commands of \<^verbatim>\<open>sdc-plugin/sdc.cc\<close> (\<^verbatim>\<open>get_ports\<close>, \<^verbatim>\<open>create_clock\<close>,
  \<^verbatim>\<open>get_clocks\<close>, \<^verbatim>\<open>propagate_clocks\<close>) as functions on an explicit plugin state. A
  command that calls \<^verbatim>\<open>log_cmd_error\<close> throws; the model returns the error next to the
  state the command leaves behind, since everything mutated before the throw stays
  mutated.
\<close>

subsection \<open>The values of the C++ type \<^verbatim>\<open>float\<close>\<close>

text \<open>
  Period and edges are \<^verbatim>\<open>float\<close> variables: a finite value (the real number it denotes;
  the sign of zero is not kept), an infinity, or NaN.
\<close>

datatype cfloat = FloatVal real | PlusInf | MinusInf | NaN

text \<open>The test \<^verbatim>\<open>x <= 0\<close>: false for NaN, as every comparison with NaN is.\<close>

fun le_zero :: "cfloat \<Rightarrow> bool" where
  "le_zero (FloatVal r) = (r \<le> 0)"
| "le_zero MinusInf = True"
| "le_zero PlusInf = False"
| "le_zero NaN = False"

text \<open>
  The quotient \<^verbatim>\<open>x / 2\<close> in single precision, rounding to nearest, ties to even. From
  \<open>2 ^ -125\<close> on the half of a \<^verbatim>\<open>float\<close> is a normal \<^verbatim>\<open>float\<close> again and the quotient is
  exact; below, the result lies on the grid of the subnormal numbers, the multiples of
  \<open>2 ^ -149\<close>, and is rounded to it.
\<close>

definition round_half_even :: "real \<Rightarrow> int" where
  "round_half_even y =
     (if y - of_int \<lfloor>y\<rfloor> < 1 / 2 then \<lfloor>y\<rfloor>
      else if 1 / 2 < y - of_int \<lfloor>y\<rfloor> then \<lfloor>y\<rfloor> + 1
      else if even \<lfloor>y\<rfloor> then \<lfloor>y\<rfloor> else \<lfloor>y\<rfloor> + 1)"

definition half32 :: "real \<Rightarrow> real" where
  "half32 r =
     (if 1 / 2 ^ 125 \<le> \<bar>r\<bar> then r / 2
      else of_int (round_half_even (r * 2 ^ 148)) / 2 ^ 149)"

fun half :: "cfloat \<Rightarrow> cfloat" where
  "half (FloatVal r) = FloatVal (half32 r)"
| "half x = x"

subsection \<open>The design as the commands read it\<close>

text \<open>A wire of a module: its \<^verbatim>\<open>RTLIL::IdString\<close> name and its port index.\<close>

record wire =
  wire_name :: string
  port_id :: nat

text \<open>
  The element kinds the propagation engine distinguishes (spec, section 6): clock-transparent
  elements, clock dividers with their fixed divisor attribute, and ordinary logic.
\<close>

datatype element_kind = Transparent | Divider nat | Ordinary

record cell =
  cell_kind :: element_kind
  cell_inputs :: "string list"
  cell_outputs :: "string list"

record rtl_module =
  mod_name :: string
  wires :: "wire list"
  cells :: "cell list"

text \<open>A \<^verbatim>\<open>RTLIL::Wire *\<close>: the module that owns the wire and the wire's name.\<close>

type_synonym wire_ref = "string \<times> string"

text \<open>
  The design: its modules in the order of \<^verbatim>\<open>design->modules()\<close>, the module that
  \<^verbatim>\<open>design->top_module()\<close> returns (\<open>None\<close> for a null pointer), and the current
  selection as whole modules and single members.
\<close>

record design =
  modules :: "rtl_module list"
  top_module :: "string option"
  selected_modules :: "string list"
  selected_members :: "(string \<times> string) list"

text \<open>\<^verbatim>\<open>design->selected(module)\<close>: the module is selected whole or in part.\<close>

definition selected_module :: "design \<Rightarrow> rtl_module \<Rightarrow> bool" where
  "selected_module d m =
     (mod_name m \<in> set (selected_modules d) \<or>
      mod_name m \<in> set (map fst (selected_members d)))"

text \<open>\<^verbatim>\<open>design->selected(module, wire)\<close>.\<close>

definition selected_member :: "design \<Rightarrow> rtl_module \<Rightarrow> wire \<Rightarrow> bool" where
  "selected_member d m w =
     (mod_name m \<in> set (selected_modules d) \<or>
      (mod_name m, wire_name w) \<in> set (selected_members d))"

text \<open>\<^verbatim>\<open>design->select(module, wire)\<close>: the one call that writes the selection.\<close>

definition select :: "design \<Rightarrow> rtl_module \<Rightarrow> wire \<Rightarrow> design" where
  "select d m w =
     (if selected_member d m w then d
      else d\<lparr>selected_members := selected_members d @ [(mod_name m, wire_name w)]\<rparr>)"

subsection \<open>Clocks and the registry\<close>

datatype clock_kind = EXPLICIT | GENERATED | PROPAGATED

record clock =
  clock_name :: string
  period :: cfloat
  rising_edge :: cfloat
  falling_edge :: cfloat
  source_nodes :: "wire_ref list"
  kind :: clock_kind

text \<open>
  The errors of the spec's taxonomy (section 7) with the message the code passes to
  \<^verbatim>\<open>log_cmd_error\<close>: \<open>UsageError\<close> carries its message (\<^verbatim>\<open>Incorrect number of arguments\<close>,
  \<^verbatim>\<open>Unknown option\<close>, \<^verbatim>\<open>No design loaded.\<close>, \<^verbatim>\<open>Tcl interpreter is not available.\<close>),
  \<open>InvalidPeriod\<close> is \<^verbatim>\<open>Incorrect period value\<close>, \<open>SelectionEmptyError\<close> is
  \<^verbatim>\<open>Target selection is empty\<close>, \<open>NoTopModule\<close> is \<^verbatim>\<open>No top module selected\<close>,
  \<open>ParseError\<close> is the \<^verbatim>\<open>std::exception\<close> that \<^verbatim>\<open>std::stof\<close> throws.
\<close>

datatype cmd_error =
    UsageError string
  | InvalidPeriod
  | DuplicateNameConflict
  | SelectionEmptyError
  | NoTopModule
  | ParseError

text \<open>What a command writes to the log, and the calls it makes into the propagation engine.\<close>

datatype propagation = BufferPropagation | ClockDividerPropagation

datatype event =
    Log string
  | Warning string
  | PassRun propagation
  | UpdateAbc9DelayTarget

text \<open>The result object of the Tcl interpreter: a list object or a string object.\<close>

datatype tcl_obj = TclList "string list" | TclString string

text \<open>
  The plugin state: the design, the clock registry, the static map
  \<^verbatim>\<open>GetClocksCmd::logical_to_wire_map\<close> (wire name to logical name), the result object of
  the Tcl interpreter, and the trace of log lines and engine calls.
\<close>

record sdc_state =
  design :: design
  registry :: "clock list"
  logical_to_wire_map :: "(string \<times> string) list"
  tcl_result :: tcl_obj
  trace :: "event list"

text \<open>
  The functions the commands call that are not part of the repository: \<^verbatim>\<open>std::stof\<close>
  (\<open>None\<close> when it throws), the extraction \<^verbatim>\<open>ss >> rising_edge >> falling_edge\<close> (from the
  text and the old values to the new values), \<^verbatim>\<open>Pass::extra_args\<close> of the host (which
  evaluates the target arguments as a selection), \<^verbatim>\<open>RTLIL::unescape_id\<close> (\<^verbatim>\<open>RTLIL::id2cstr\<close>
  is the same function), \<^verbatim>\<open>Tcl_GetString\<close> on a list object, the text \<^verbatim>\<open>what()\<close> of the
  exception of \<^verbatim>\<open>std::stof\<close>, whether the macro \<^verbatim>\<open>SDC_DEBUG\<close> is defined, whether
  \<^verbatim>\<open>yosys_get_design\<close> and \<^verbatim>\<open>yosys_get_tcl_interp\<close> return an object. The helpers of the repository whose source is not in \<^verbatim>\<open>sdc.cc\<close> and
  whose result the commands only pass on are parameters too: \<^verbatim>\<open>Clocks::GetClocks\<close> (the
  contents of the \<^verbatim>\<open>std::map\<close> it returns, in key order) and \<^verbatim>\<open>Propagation::Run\<close> (the
  design and registry it leaves, and the warnings it logs).
\<close>

record host =
  stof :: "string \<Rightarrow> cfloat option"
  read_edges :: "string \<Rightarrow> cfloat \<times> cfloat \<Rightarrow> cfloat \<times> cfloat"
  extra_args :: "string list \<Rightarrow> design \<Rightarrow> cmd_error + design"
  unescape_id :: "string \<Rightarrow> string"
  tcl_list_string :: "string list \<Rightarrow> string"
  exception_what :: string
  sdc_debug :: bool
  design_loaded :: bool
  tcl_interp :: bool
  GetClocks :: "design \<Rightarrow> clock list \<Rightarrow> (string \<times> wire_ref) list"
  pass_run :: "propagation \<Rightarrow> design \<times> clock list \<Rightarrow> (design \<times> clock list) \<times> string list"

subsection \<open>\<^verbatim>\<open>Clock::Add\<close>\<close>

text \<open>
  Modelled from the spec: \<^verbatim>\<open>Clock::Add\<close> is declared in \<^verbatim>\<open>clocks.h\<close>, which is not among
  the sources. Section 4.1: \<^verbatim>\<open>Add(name, sourceNodes, period, risingEdge, fallingEdge, kind)\<close>
  fails with \<open>InvalidPeriod\<close> if the period is not positive and with
  \<open>DuplicateNameConflict\<close> if the name is already bound to a different node set or kind
  (\<^verbatim>\<open>create_clock\<close> passes no extend flag); otherwise it inserts the record, at the end of
  the insertion order, or merges it into the record of that name, in place.
\<close>

definition Registry_Get :: "string \<Rightarrow> clock list \<Rightarrow> clock option" where
  "Registry_Get n reg = find (\<lambda>c. clock_name c = n) reg"

definition Clock_Add ::
  "string \<Rightarrow> wire_ref list \<Rightarrow> cfloat \<Rightarrow> cfloat \<Rightarrow> cfloat \<Rightarrow> clock_kind \<Rightarrow> clock list
     \<Rightarrow> cmd_error + clock list" where
  "Clock_Add n nodes p r f k reg =
     (let c = \<lparr>clock_name = n, period = p, rising_edge = r, falling_edge = f,
               source_nodes = nodes, kind = k\<rparr>
      in if le_zero p then Inl InvalidPeriod
         else case Registry_Get n reg of
             None \<Rightarrow> Inr (reg @ [c])
           | Some old \<Rightarrow>
               if set (source_nodes old) \<noteq> set nodes \<or> kind old \<noteq> k
               then Inl DuplicateNameConflict
               else Inr (map (\<lambda>x. if x = old then c else x) reg))"

section \<open>\<^verbatim>\<open>get_ports\<close>\<close>

text \<open>
  The module \<^verbatim>\<open>design->top_module()\<close> points to: the module of the design that carries
  the name of the top module.
\<close>

definition top_of :: "design \<Rightarrow> rtl_module option" where
  "top_of d =
     (case top_module d of
        None \<Rightarrow> None
      | Some t \<Rightarrow> find (\<lambda>m. mod_name m = t) (modules d))"

text \<open>
  The names of the ports of a module, in the order of its wires: the wires with a port
  index other than 0, their names passed through \<^verbatim>\<open>RTLIL::id2cstr\<close>.
\<close>

definition port_names :: "host \<Rightarrow> rtl_module \<Rightarrow> string list" where
  "port_names H m =
     map (\<lambda>w. unescape_id H (wire_name w)) (filter (\<lambda>w. port_id w \<noteq> 0) (wires m))"

text \<open>
  \<^verbatim>\<open>GetPortsCmd::execute\<close> (lines 86 to 152). With one argument after the command word the
  result is that port name, as a string, if the top module has such a port, and the empty
  string otherwise; with none it is the list of all port names. The command reads the
  design and writes the result of the interpreter and the log.
\<close>

definition GetPortsCmd_execute ::
  "host \<Rightarrow> string list \<Rightarrow> sdc_state \<Rightarrow> cmd_error option \<times> sdc_state" where
  "GetPortsCmd_execute H args st =
     (case top_of (design st) of
        None \<Rightarrow> (Some NoTopModule, st)
      | Some topm \<Rightarrow>
          (if length args = 2 then
             (if args ! 1 \<in> set (port_names H topm)
              then (None, st\<lparr>tcl_result := TclString (args ! 1),
                            trace := trace st @ [Log (args ! 1)]\<rparr>)
              else (None, st\<lparr>tcl_result := TclString [],
                            trace := trace st @
                              [Log (''Error:: port '' @ args ! 1 @ '' not exist'')]\<rparr>))
           else if length args = 1 then
             (None, st\<lparr>tcl_result := TclList (port_names H topm),
                       trace := trace st @
                         (if port_names H topm = []
                          then [Log (''Error:: No ports found for '' @ [CHR 0x27] @ ''get_ports'' @
                                     [CHR 0x27])]
                          else []) @
                         map Log (port_names H topm)\<rparr>)
           else (Some (UsageError ''Invalid usage: get_ports [port_name]''), st)))"

section \<open>\<^verbatim>\<open>create_clock\<close>\<close>

text \<open>The local variables of \<^verbatim>\<open>CreateClockCmd::execute\<close> that the option loop sets.\<close>

record cc_locals =
  name :: string
  is_waveform_specified :: bool
  l_rising_edge :: cfloat
  l_falling_edge :: cfloat
  l_period :: cfloat

definition cc_locals0 :: cc_locals where
  "cc_locals0 = \<lparr>name = [], is_waveform_specified = False, l_rising_edge = FloatVal 0,
                  l_falling_edge = FloatVal 0, l_period = FloatVal 0\<rparr>"

text \<open>
  The option loop (lines 225 to 247) on the arguments from \<^verbatim>\<open>argidx\<close> on. An option that
  takes a value is recognised only when a further argument follows
  (\<^verbatim>\<open>argidx + 1 < args.size()\<close>); the loop breaks at the first argument that is none of
  them and returns the arguments left, the target. The \<^verbatim>\<open>std::copy_if\<close> of line 240 keeps
  every character of the edge list (its predicate holds for each), so the extraction
  reads the text as given.
\<close>

fun parse_options :: "host \<Rightarrow> string list \<Rightarrow> cc_locals \<Rightarrow> cmd_error + (string list \<times> cc_locals)" where
  "parse_options H (arg # nxt # rest) L =
     (if arg = ''-add'' then parse_options H (nxt # rest) L
      else if arg = ''-name'' then parse_options H rest (L\<lparr>name := nxt\<rparr>)
      else if arg = ''-period'' then
        (case stof H nxt of
           None \<Rightarrow> Inl ParseError
         | Some p \<Rightarrow> parse_options H rest (L\<lparr>l_period := p\<rparr>))
      else if arg = ''-waveform'' then
        (case read_edges H nxt (l_rising_edge L, l_falling_edge L) of
           (r, f) \<Rightarrow> parse_options H rest
              (L\<lparr>l_rising_edge := r, l_falling_edge := f, is_waveform_specified := True\<rparr>))
      else Inr (arg # nxt # rest, L))"
| "parse_options H args L = Inr (args, L)"

text \<open>\<^verbatim>\<open>AddWirePrefix\<close>: every target argument gets the prefix \<^verbatim>\<open>w:\<close>.\<close>

definition AddWirePrefix :: "string list \<Rightarrow> string list" where
  "AddWirePrefix targets = map (\<lambda>w. ''w:'' @ w) targets"

text \<open>
  Lines 257 to 269: the selected wires of the selected modules, in module and wire order,
  and the line each one logs when \<^verbatim>\<open>SDC_DEBUG\<close> is defined.
\<close>

definition selected_wires_of :: "design \<Rightarrow> (rtl_module \<times> wire) list" where
  "selected_wires_of d =
     concat (map (\<lambda>m. if selected_module d m
                       then map (Pair m) (filter (selected_member d m) (wires m))
                       else [])
                 (modules d))"

definition wire_ref_of :: "rtl_module \<times> wire \<Rightarrow> wire_ref" where
  "wire_ref_of mw = (mod_name (fst mw), wire_name (snd mw))"

definition debug_lines :: "host \<Rightarrow> (rtl_module \<times> wire) list \<Rightarrow> event list" where
  "debug_lines H sel =
     (if sdc_debug H
      then map (\<lambda>mw. Log (''Selected wire '' @ unescape_id H (wire_name (snd mw)))) sel
      else [])"

text \<open>
  Lines 270 to 281, run when no wire is selected: every wire of a selected module whose
  name equals the clock name is taken as a target and selected. The design is threaded
  through the loops, as \<^verbatim>\<open>design->selected(module)\<close> reads what earlier iterations wrote.
\<close>

fun auto_select_module ::
  "string \<Rightarrow> rtl_module \<Rightarrow> wire list \<Rightarrow> (rtl_module \<times> wire) list \<times> design
     \<Rightarrow> (rtl_module \<times> wire) list \<times> design" where
  "auto_select_module n m [] acc = acc"
| "auto_select_module n m (w # ws) (sel, d) =
     auto_select_module n m ws
       (if wire_name w = n then (sel @ [(m, w)], select d m w) else (sel, d))"

fun auto_select ::
  "string \<Rightarrow> rtl_module list \<Rightarrow> (rtl_module \<times> wire) list \<times> design
     \<Rightarrow> (rtl_module \<times> wire) list \<times> design" where
  "auto_select n [] acc = acc"
| "auto_select n (m # ms) (sel, d) =
     auto_select n ms
       (if selected_module d m then auto_select_module n m (wires m) (sel, d) else (sel, d))"

text \<open>Lines 256 to 281 together: the target wires and the design they leave.\<close>

definition resolve_target :: "string \<Rightarrow> design \<Rightarrow> (rtl_module \<times> wire) list \<times> design" where
  "resolve_target n d =
     (if selected_wires_of d = [] then auto_select n (modules d) ([], d)
      else (selected_wires_of d, d))"

text \<open>
  \<^verbatim>\<open>CreateClockCmd::execute\<close> (lines 214 to 293). \<^verbatim>\<open>args\<close> holds the command word first,
  so the option loop starts at its tail.
\<close>

definition CreateClockCmd_execute ::
  "host \<Rightarrow> string list \<Rightarrow> sdc_state \<Rightarrow> cmd_error option \<times> sdc_state" where
  "CreateClockCmd_execute H args st =
     (if length args < 4 then (Some (UsageError ''Incorrect number of arguments''), st)
      else
        (case parse_options H (tl args) cc_locals0 of
           Inl e \<Rightarrow> (Some e, st)
         | Inr (targets, L) \<Rightarrow>
             (if le_zero (l_period L) then (Some InvalidPeriod, st)
              else
                (case extra_args H (AddWirePrefix targets) (design st) of
                   Inl e \<Rightarrow> (Some e, st)
                 | Inr d1 \<Rightarrow>
                     (case resolve_target (name L) d1 of
                        (selected_wires, d2) \<Rightarrow>
                          (let st2 = st\<lparr>design := d2,
                                 trace := trace st @ debug_lines H (selected_wires_of d1)\<rparr>
                           in (if selected_wires = [] then (Some SelectionEmptyError, st2)
                               else
                                 (let n = (if name L = []
                                           then unescape_id H (wire_name (snd (hd selected_wires)))
                                           else name L);
                                      r = (if is_waveform_specified L then l_rising_edge L
                                           else FloatVal 0);
                                      f = (if is_waveform_specified L then l_falling_edge L
                                           else half (l_period L))
                                  in (case Clock_Add n (map wire_ref_of selected_wires) (l_period L)
                                             r f EXPLICIT (registry st2) of
                                        Inl e \<Rightarrow> (Some e, st2)
                                      | Inr reg \<Rightarrow> (None, st2\<lparr>registry := reg\<rparr>))))))))))"

section \<open>\<^verbatim>\<open>get_clocks\<close>\<close>

text \<open>
  \<^verbatim>\<open>extract_list\<close> (lines 319 to 326): the whitespace-separated words of a string, as
  \<^verbatim>\<open>std::istream_iterator<std::string>\<close> reads them.
\<close>

definition is_space :: "char \<Rightarrow> bool" where
  "is_space c = (c \<in> set [CHR '' '', CHR 0x09, CHR 0x0A, CHR 0x0B, CHR 0x0C, CHR 0x0D])"

fun split_words :: "string \<Rightarrow> string \<Rightarrow> string list" where
  "split_words cur [] = (if cur = [] then [] else [cur])"
| "split_words cur (c # cs) =
     (if is_space c then (if cur = [] then split_words [] cs else cur # split_words [] cs)
      else split_words (cur @ [c]) cs)"

definition extract_list :: "string \<Rightarrow> string list" where
  "extract_list s = split_words [] s"

text \<open>
  The switch loop (lines 341 to 355) on the arguments after the command word: the values of
  \<^verbatim>\<open>include_generated_clocks\<close> and \<^verbatim>\<open>clocks_nets\<close>, and the arguments from \<^verbatim>\<open>argidx\<close>
  on, which become \<^verbatim>\<open>clocks_list\<close> (line 358).
\<close>

fun parse_switches ::
  "string list \<Rightarrow> bool \<times> string list \<Rightarrow> cmd_error + (bool \<times> string list \<times> string list)" where
  "parse_switches [] (ig, nets) = Inr (ig, nets, [])"
| "parse_switches (arg # rest) (ig, nets) =
     (if arg = ''-include_generated_clocks'' then parse_switches rest (True, nets)
      else if arg = ''-of'' \<and> rest \<noteq> [] then parse_switches (tl rest) (ig, extract_list (hd rest))
      else if arg \<noteq> [] \<and> hd arg = CHR ''-''
        then Inl (UsageError (''Unknown option '' @ arg @ ''.''))
      else Inr (ig, nets, arg # rest))"

text \<open>
  Lines 378 to 393: for each clock of the map, in the map's order, the logical name that
  \<^verbatim>\<open>logical_to_wire_map\<close> holds for the name of the clock's wire, if it holds one.
\<close>

definition logical_names ::
  "host \<Rightarrow> (string \<times> string) list \<Rightarrow> (string \<times> wire_ref) list \<Rightarrow> string list" where
  "logical_names H m clocks =
     concat (map (\<lambda>kw. case map_of m (unescape_id H (snd (snd kw))) of
                          None \<Rightarrow> []
                        | Some logical_name \<Rightarrow> [logical_name])
                 clocks)"

text \<open>
  \<^verbatim>\<open>GetClocksCmd::execute\<close> (lines 328 to 413). The values of \<^verbatim>\<open>include_generated_clocks\<close>,
  \<^verbatim>\<open>clocks_nets\<close> and \<^verbatim>\<open>clocks_list\<close> are computed and not read again.
\<close>

definition GetClocksCmd_execute ::
  "host \<Rightarrow> string list \<Rightarrow> sdc_state \<Rightarrow> cmd_error option \<times> sdc_state" where
  "GetClocksCmd_execute H args st =
     (if \<not> design_loaded H then (Some (UsageError ''No design loaded.''), st)
      else
        (case parse_switches (tl args) (False, []) of
           Inl e \<Rightarrow> (Some e, st)
         | Inr (include_generated_clocks, clocks_nets, clocks_list) \<Rightarrow>
             (let clocks = GetClocks H (design st) (registry st);
                  w1 = (if clocks = [] then [Warning ''No clocks found in design''] else [])
              in (if \<not> tcl_interp H
                  then (Some (UsageError ''Tcl interpreter is not available.''),
                        st\<lparr>trace := trace st @ w1\<rparr>)
                  else
                    (let names = logical_names H (logical_to_wire_map st) clocks;
                         lines = map Log (extract_list (tcl_list_string H names));
                         w2 = (if clocks = []
                               then [Warning ''No clocks found in design after processing.'']
                               else [])
                     in (None, st\<lparr>tcl_result := TclList names,
                                  trace := trace st @ w1 @ lines @ w2\<rparr>))))))"

text \<open>\<^verbatim>\<open>GetClocksCmd::create_clock_with_name\<close> (lines 416 to 419): the one writer of the map.\<close>

definition create_clock_with_name :: "string \<Rightarrow> string \<Rightarrow> sdc_state \<Rightarrow> sdc_state" where
  "create_clock_with_name logical_name wname st =
     st\<lparr>logical_to_wire_map :=
          (wname, logical_name) # filter (\<lambda>kv. fst kv \<noteq> wname) (logical_to_wire_map st)\<rparr>"

text \<open>
  What the spec says \<^verbatim>\<open>get_clocks\<close> returns (section 4.5), for comparison with the code:
  the clocks of the registry, in insertion order, filtered by the node association and by
  the name patterns when these are given, each name once. Generated clocks are listed
  when \<open>includeGenerated\<close> is set; a name pattern is taken as the name itself.
\<close>

fun suppress_duplicates :: "string list \<Rightarrow> string list \<Rightarrow> string list" where
  "suppress_duplicates seen [] = []"
| "suppress_duplicates seen (x # xs) =
     (if x \<in> set seen then suppress_duplicates seen xs
      else x # suppress_duplicates (x # seen) xs)"

definition GetClocks_spec ::
  "bool \<Rightarrow> wire_ref list option \<Rightarrow> string list option \<Rightarrow> clock list \<Rightarrow> string list" where
  "GetClocks_spec includeGenerated ofNodes namePatterns reg =
     suppress_duplicates []
       (map clock_name
          (filter (\<lambda>c. (includeGenerated \<or> kind c \<noteq> GENERATED) \<and>
                       (case ofNodes of None \<Rightarrow> True
                          | Some ns \<Rightarrow> set ns \<inter> set (source_nodes c) \<noteq> {}) \<and>
                       (case namePatterns of None \<Rightarrow> True
                          | Some ps \<Rightarrow> clock_name c \<in> set ps))
                  reg))"

section \<open>\<^verbatim>\<open>propagate_clocks\<close>\<close>

text \<open>
  Lines 447 to 454: the two passes, in the order of the array, each run once. The trace
  records the call of \<^verbatim>\<open>Run\<close> and then the warnings the pass logs.
\<close>

definition passes :: "propagation list" where
  "passes = [BufferPropagation, ClockDividerPropagation]"

fun run_passes :: "host \<Rightarrow> propagation list \<Rightarrow> sdc_state \<Rightarrow> sdc_state" where
  "run_passes H [] st = st"
| "run_passes H (p # ps) st =
     (case pass_run H p (design st, registry st) of
        ((d, reg), ws) \<Rightarrow>
          run_passes H ps
            (st\<lparr>design := d, registry := reg,
                trace := trace st @ [PassRun p] @ map Warning ws\<rparr>))"

text \<open>
  \<^verbatim>\<open>PropagateClocksCmd::execute\<close> (lines 438 to 457); \<open>arg_warning\<close> is the warning of
  lines 440 to 442, logged when arguments follow the command word. The call of
  \<^verbatim>\<open>Clocks::UpdateAbc9DelayTarget\<close>, whose source is not in \<^verbatim>\<open>sdc.cc\<close>, is recorded in the
  trace; the spec calls it an external side effect (section 4.2).
\<close>

definition arg_warning :: "string list \<Rightarrow> event list" where
  "arg_warning args =
     (if 1 < length args
      then [Warning (''Command accepts no arguments.'' @ [CHR 0x0A] @ ''All will be ignored.'')]
      else [])"

definition PropagateClocksCmd_execute ::
  "host \<Rightarrow> string list \<Rightarrow> sdc_state \<Rightarrow> cmd_error option \<times> sdc_state" where
  "PropagateClocksCmd_execute H args st =
     (let st1 = st\<lparr>trace := trace st @ arg_warning args\<rparr>
      in if top_module (design st1) = None then (Some NoTopModule, st1)
         else
           let st2 = st1\<lparr>trace := trace st1 @ [Log ''Perform clock propagation'']\<rparr>;
               st3 = run_passes H passes st2
           in (None, st3\<lparr>trace := trace st3 @ [UpdateAbc9DelayTarget]\<rparr>))"

section \<open>Sessions\<close>

text \<open>
  The commands that \<^verbatim>\<open>SdcPlugin\<close> registers (lines 506 to 509) and whose \<^verbatim>\<open>execute\<close> is
  in \<^verbatim>\<open>sdc.cc\<close>.
\<close>

datatype command =
    Get_ports "string list"
  | Create_clock "string list"
  | Get_clocks "string list"
  | Propagate_clocks "string list"

fun execute :: "host \<Rightarrow> command \<Rightarrow> sdc_state \<Rightarrow> cmd_error option \<times> sdc_state" where
  "execute H (Get_ports args) st = GetPortsCmd_execute H args st"
| "execute H (Create_clock args) st = CreateClockCmd_execute H args st"
| "execute H (Get_clocks args) st = GetClocksCmd_execute H args st"
| "execute H (Propagate_clocks args) st = PropagateClocksCmd_execute H args st"

text \<open>
  The callback of \<^verbatim>\<open>register_tcl_command\<close> (lines 466 to 484): it runs the \<^verbatim>\<open>execute\<close> of
  the pass and returns \<^verbatim>\<open>TCL_OK\<close>; the exception of \<^verbatim>\<open>log_cmd_error\<close> ends the command with
  \<^verbatim>\<open>TCL_ERROR\<close>, and so does a \<^verbatim>\<open>std::exception\<close>, whose text becomes the result of the
  interpreter. Everything else is as the command left it.
\<close>

datatype tcl_status = TCL_OK | TCL_ERROR

fun is_std_exception :: "cmd_error \<Rightarrow> bool" where
  "is_std_exception ParseError = True"
| "is_std_exception e = False"

definition tcl_command :: "host \<Rightarrow> command \<Rightarrow> sdc_state \<Rightarrow> tcl_status \<times> sdc_state" where
  "tcl_command H c st =
     (case execute H c st of
        (None, st') \<Rightarrow> (TCL_OK, st')
      | (Some e, st') \<Rightarrow>
          (TCL_ERROR,
           if is_std_exception e then st'\<lparr>tcl_result := TclString (exception_what H)\<rparr>
           else st'))"

text \<open>
  A session is a sequence of commands, each from the state the one before left. The
  static map is empty when the plugin is loaded (line 423).
\<close>

fun run_session :: "host \<Rightarrow> command list \<Rightarrow> sdc_state \<Rightarrow> sdc_state" where
  "run_session H [] st = st"
| "run_session H (c # cs) st = run_session H cs (snd (tcl_command H c st))"

definition initial_state :: "design \<Rightarrow> sdc_state" where
  "initial_state d =
     \<lparr>design = d, registry = [], logical_to_wire_map = [], tcl_result = TclList [],
      trace = []\<rparr>"

section \<open>The propagation engine\<close>

text \<open>
  Modelled from the spec: \<^verbatim>\<open>RemoveAllOfKind\<close> and \<^verbatim>\<open>FindByNode\<close> of the registry (section
  4.1) belong to \<^verbatim>\<open>clocks.h\<close>, which is not among the sources.
\<close>

definition RemoveAllOfKind :: "clock_kind \<Rightarrow> clock list \<Rightarrow> clock list" where
  "RemoveAllOfKind k reg = filter (\<lambda>c. kind c \<noteq> k) reg"

definition FindByNode :: "wire_ref \<Rightarrow> clock list \<Rightarrow> clock list" where
  "FindByNode n reg = filter (\<lambda>c. n \<in> set (source_nodes c)) reg"

text \<open>
  Modelled from the spec: the sources of \<^verbatim>\<open>BufferPropagation\<close> and
  \<^verbatim>\<open>ClockDividerPropagation\<close> (\<^verbatim>\<open>propagation.h\<close>) are missing; what follows is section 4.2.
  A pass crosses the elements of its kind only: a transparent element hands on period and
  waveform, a divider multiplies the period by its divisor and regenerates a 50 percent
  duty cycle. The spec computes with real numbers; \<open>scale\<close> and \<open>halved\<close> do so on the
  finite values.
\<close>

fun scale :: "cfloat \<Rightarrow> nat \<Rightarrow> cfloat" where
  "scale (FloatVal r) k = FloatVal (r * real k)"
| "scale x k = x"

fun halved :: "cfloat \<Rightarrow> cfloat" where
  "halved (FloatVal r) = FloatVal (r / 2)"
| "halved x = x"

fun derive :: "propagation \<Rightarrow> element_kind \<Rightarrow> clock \<Rightarrow> (cfloat \<times> cfloat \<times> cfloat) option" where
  "derive BufferPropagation Transparent c = Some (period c, rising_edge c, falling_edge c)"
| "derive ClockDividerPropagation (Divider k) c =
     Some (scale (period c) k, FloatVal 0, halved (scale (period c) k))"
| "derive p e c = None"

text \<open>
  Modelled from the spec: the clock derived at an output node is recorded as a
  \<open>PROPAGATED\<close> clock named after the node, rooted at it, and the traversal goes on from
  there. A node that has a clock already keeps it (the first seen wins, a different period
  is a \<^verbatim>\<open>PropagationConflict\<close> warning) and is not crossed; a clock that \<^verbatim>\<open>Add\<close> refuses
  is skipped with a warning.
\<close>

fun record_outputs ::
  "string \<Rightarrow> cfloat \<times> cfloat \<times> cfloat \<Rightarrow> string list
     \<Rightarrow> (wire_ref \<times> clock) list \<times> clock list \<times> string list
     \<Rightarrow> (wire_ref \<times> clock) list \<times> clock list \<times> string list" where
  "record_outputs t shape [] acc = acc"
| "record_outputs t shape (out # outs) (new, reg, ws) =
     record_outputs t shape outs
       (case shape of (p, r, f) \<Rightarrow>
          (case FindByNode (t, out) reg of
             c # cs \<Rightarrow>
               (new, reg, if period c \<noteq> p then ws @ [''PropagationConflict at '' @ out] else ws)
           | [] \<Rightarrow>
               (case Clock_Add out [(t, out)] p r f PROPAGATED reg of
                  Inl e \<Rightarrow> (new, reg, ws @ [''Clock not added at '' @ out])
                | Inr reg' \<Rightarrow>
                    (new @ [((t, out),
                             \<lparr>clock_name = out, period = p, rising_edge = r, falling_edge = f,
                              source_nodes = [(t, out)], kind = PROPAGATED\<rparr>)],
                     reg', ws))))"

text \<open>
  Modelled from the spec: one visit of a node reached by clock \<open>c\<close>, over the elements of
  the top module that the node feeds.
\<close>

fun visit_cells ::
  "propagation \<Rightarrow> string \<Rightarrow> string \<Rightarrow> clock \<Rightarrow> cell list
     \<Rightarrow> (wire_ref \<times> clock) list \<times> clock list \<times> string list
     \<Rightarrow> (wire_ref \<times> clock) list \<times> clock list \<times> string list" where
  "visit_cells p t w c [] acc = acc"
| "visit_cells p t w c (e # es) acc =
     visit_cells p t w c es
       (if w \<in> set (cell_inputs e)
        then (case derive p (cell_kind e) c of
                None \<Rightarrow> acc
              | Some shape \<Rightarrow> record_outputs t shape (cell_outputs e) acc)
        else acc)"

text \<open>
  Modelled from the spec: the breadth-first traversal, a work list of nodes with the clock
  that reaches each, and the set of visited nodes of the run. A node outside the graph is
  skipped with a warning; a node is visited at most once.
\<close>

definition node_list :: "rtl_module \<Rightarrow> wire_ref list" where
  "node_list topm = map (\<lambda>w. (mod_name topm, wire_name w)) (wires topm)"

function traverse ::
  "propagation \<Rightarrow> rtl_module \<Rightarrow> (wire_ref \<times> clock) list \<Rightarrow> wire_ref list
     \<Rightarrow> clock list \<times> string list \<Rightarrow> wire_ref list \<times> clock list \<times> string list" where
  "traverse p topm [] visited acc = (visited, acc)"
| "traverse p topm ((n, c) # queue) visited (reg, ws) =
     (if n \<notin> set (node_list topm)
      then traverse p topm queue visited (reg, ws @ [''Skipped node '' @ snd n])
      else if n \<in> set visited then traverse p topm queue visited (reg, ws)
      else (case visit_cells p (mod_name topm) (snd n) c (cells topm) ([], reg, ws) of
              (new, reg', ws') \<Rightarrow> traverse p topm (queue @ new) (n # visited) (reg', ws')))"
  by pat_completeness auto
termination
proof (relation "measures [\<lambda>(p, topm, queue, visited, acc). card (set (node_list topm) - set visited),
                           \<lambda>(p, topm, queue, visited, acc). length queue]")
  show "wf (measures [\<lambda>(p, topm, queue, visited, acc). card (set (node_list topm) - set visited),
                           \<lambda>(p, topm, queue, visited, acc). length queue])" by simp
next
  fix p :: propagation and topm :: rtl_module and n :: wire_ref and c :: clock
    and queue :: "(wire_ref \<times> clock) list" and visited :: "wire_ref list"
    and reg :: "clock list" and ws :: "string list"
  show "((p, topm, queue, visited, reg, ws @ [''Skipped node '' @ snd n]),
         (p, topm, (n, c) # queue, visited, reg, ws)) \<in>
        measures [\<lambda>(p, topm, queue, visited, acc). card (set (node_list topm) - set visited),
                           \<lambda>(p, topm, queue, visited, acc). length queue]"
    by simp
  show "((p, topm, queue, visited, reg, ws),
         (p, topm, (n, c) # queue, visited, reg, ws)) \<in>
        measures [\<lambda>(p, topm, queue, visited, acc). card (set (node_list topm) - set visited),
                           \<lambda>(p, topm, queue, visited, acc). length queue]"
    by simp
next
  fix p :: propagation and topm :: rtl_module and n :: wire_ref and c :: clock
    and queue :: "(wire_ref \<times> clock) list" and visited :: "wire_ref list"
    and reg :: "clock list" and ws :: "string list" and x xa y xb ya
  assume a: "\<not> n \<notin> set (node_list topm)" "n \<notin> set visited"
  have "set (node_list topm) - set (n # visited) = (set (node_list topm) - set visited) - {n}"
    by auto
  moreover have "n \<in> set (node_list topm) - set visited" using a by simp
  ultimately have "card (set (node_list topm) - set (n # visited)) < card (set (node_list topm) - set visited)"
    by (metis card_Diff1_less finite_Diff finite_set)
  then show "((p, topm, queue @ xa, n # visited, xb, ya), p, topm, (n, c) # queue, visited, reg, ws)
       \<in> measures [\<lambda>(p, topm, queue, visited, acc). card (set (node_list topm) - set visited),
                           \<lambda>(p, topm, queue, visited, acc). length queue]"
    by simp
qed

text \<open>
  Modelled from the spec: a pass traverses from the source nodes of each clock that the
  registry holds when the pass starts, one clock after the other in insertion order, on
  the graph of the top module; the visited nodes are those of the whole pass.
\<close>

fun traverse_clocks ::
  "propagation \<Rightarrow> rtl_module \<Rightarrow> clock list \<Rightarrow> wire_ref list \<times> clock list \<times> string list
     \<Rightarrow> wire_ref list \<times> clock list \<times> string list" where
  "traverse_clocks p topm [] acc = acc"
| "traverse_clocks p topm (c # cs) (visited, reg, ws) =
     traverse_clocks p topm cs
       (traverse p topm (map (\<lambda>n. (n, c)) (source_nodes c)) visited (reg, ws))"

definition propagate :: "propagation \<Rightarrow> design \<Rightarrow> clock list \<Rightarrow> clock list \<times> string list" where
  "propagate p d reg =
     (case top_of d of
        None \<Rightarrow> (reg, [])
      | Some topm \<Rightarrow> snd (traverse_clocks p topm reg ([], reg, [])))"

text \<open>
  Modelled from the spec: \<^verbatim>\<open>Propagation::Run\<close>. Section 4.2 has all \<open>PROPAGATED\<close> clocks
  discarded before each run; \<^verbatim>\<open>PropagateClocksCmd::execute\<close> does not do it itself, so the
  discarding is the first step of the first pass. The passes read the design and write
  the registry only.
\<close>

definition Propagation_Run ::
  "propagation \<Rightarrow> design \<times> clock list \<Rightarrow> (design \<times> clock list) \<times> string list" where
  "Propagation_Run p dr =
     (case dr of
        (d, reg) \<Rightarrow>
          (case propagate p d
                  (case p of
                     BufferPropagation \<Rightarrow> RemoveAllOfKind PROPAGATED reg
                   | ClockDividerPropagation \<Rightarrow> reg) of
             (reg', ws) \<Rightarrow> ((d, reg'), ws)))"

definition with_engine :: "host \<Rightarrow> host" where
  "with_engine H = H\<lparr>pass_run := Propagation_Run\<rparr>"

text \<open>
  Modelled from the spec: what one run of the two passes makes of the registry, the buffer
  pass first, from the registry without its \<open>PROPAGATED\<close> clocks.
\<close>

definition engine :: "design \<Rightarrow> clock list \<Rightarrow> clock list" where
  "engine d reg =
     fst (propagate ClockDividerPropagation d
            (fst (propagate BufferPropagation d (RemoveAllOfKind PROPAGATED reg))))"

section \<open>Observations on the trace\<close>

text \<open>The calls into the engine among the events of a trace.\<close>

fun is_engine_call :: "event \<Rightarrow> bool" where
  "is_engine_call (PassRun p) = True"
| "is_engine_call UpdateAbc9DelayTarget = True"
| "is_engine_call e = False"

section \<open>An example design and host\<close>

text \<open>
  A top module with the wires \<^verbatim>\<open>clk\<close>, \<^verbatim>\<open>buf_out\<close> and \<^verbatim>\<open>div_out\<close> (public names,
  which RTLIL escapes with a backslash), a buffer from the first to the second and a
  divider by two from the second to the third.
\<close>

definition esc :: "string \<Rightarrow> string" where
  "esc s = CHR 0x5C # s"

definition example_top :: rtl_module where
  "example_top =
     \<lparr>mod_name = esc ''top'',
      wires = [\<lparr>wire_name = esc ''clk'', port_id = 1\<rparr>,
               \<lparr>wire_name = esc ''buf_out'', port_id = 0\<rparr>,
               \<lparr>wire_name = esc ''div_out'', port_id = 0\<rparr>],
      cells = [\<lparr>cell_kind = Transparent, cell_inputs = [esc ''clk''],
                cell_outputs = [esc ''buf_out'']\<rparr>,
               \<lparr>cell_kind = Divider 2, cell_inputs = [esc ''buf_out''],
                cell_outputs = [esc ''div_out'']\<rparr>]\<rparr>"

text \<open>The design with everything selected, as after loading it.\<close>

definition example_design :: design where
  "example_design =
     \<lparr>modules = [example_top], top_module = Some (esc ''top''),
      selected_modules = [esc ''top''], selected_members = []\<rparr>"


text \<open>
  A host for the examples. \<^verbatim>\<open>unescape_id\<close> drops the backslash of a public name;
  \<^verbatim>\<open>stof\<close> is given on the literals the examples use; the target arguments select the
  wires they name; \<^verbatim>\<open>Clocks::GetClocks\<close> maps the name of each clock of the registry to
  its first wire; the engine is the one modelled from the spec.
\<close>

definition example_unescape_id :: "string \<Rightarrow> string" where
  "example_unescape_id s =
     (case s of
        c # c' # cs \<Rightarrow>
          (if c = CHR 0x5C \<and> c' \<noteq> CHR ''$'' \<and> c' \<noteq> CHR 0x5C \<and>
              c' \<notin> set ''0123456789''
           then c' # cs else s)
      | _ \<Rightarrow> s)"

definition example_stof :: "string \<Rightarrow> cfloat option" where
  "example_stof s =
     map_of [(''10.0'', FloatVal 10), (''10'', FloatVal 10), (''0'', FloatVal 0),
             (''-1'', FloatVal (- 1)), (''0x1p-149'', FloatVal (1 / 2 ^ 149)),
             (''nan'', NaN), (''inf'', PlusInf)] s"

definition example_read_edges :: "string \<Rightarrow> cfloat \<times> cfloat \<Rightarrow> cfloat \<times> cfloat" where
  "example_read_edges s old =
     (if s = ''2.5 7.5'' then (FloatVal (5 / 2), FloatVal (15 / 2)) else (FloatVal 0, snd old))"

definition example_extra_args :: "string list \<Rightarrow> design \<Rightarrow> cmd_error + design" where
  "example_extra_args targets d =
     (if targets = [] then Inr d
      else Inr (d\<lparr>selected_modules := [],
                  selected_members :=
                    concat (map (\<lambda>m. map (\<lambda>w. (mod_name m, wire_name w))
                                    (filter (\<lambda>w. ''w:'' @ example_unescape_id (wire_name w)
                                                   \<in> set targets)
                                            (wires m)))
                                (modules d))\<rparr>))"

fun join_words :: "string list \<Rightarrow> string" where
  "join_words [] = []"
| "join_words [w] = w"
| "join_words (w # ws) = w @ '' '' @ join_words ws"

text \<open>
  The order of \<^verbatim>\<open>std::string\<close> keys in a \<^verbatim>\<open>std::map\<close>: lexicographic on the character
  codes. \<open>map_insert\<close> is \<^verbatim>\<open>std::map::insert\<close> on the contents in key order: a key that
  is there keeps its value.
\<close>

fun string_less :: "string \<Rightarrow> string \<Rightarrow> bool" where
  "string_less [] [] = False"
| "string_less [] (y # ys) = True"
| "string_less (x # xs) [] = False"
| "string_less (x # xs) (y # ys) =
     ((of_char x :: nat) < of_char y \<or> (x = y \<and> string_less xs ys))"

fun map_insert :: "string \<times> 'v \<Rightarrow> (string \<times> 'v) list \<Rightarrow> (string \<times> 'v) list" where
  "map_insert kv [] = [kv]"
| "map_insert kv (e # es) =
     (if fst kv = fst e then e # es
      else if string_less (fst kv) (fst e) then kv # e # es
      else e # map_insert kv es)"

definition example_GetClocks :: "design \<Rightarrow> clock list \<Rightarrow> (string \<times> wire_ref) list" where
  "example_GetClocks d reg =
     foldl (\<lambda>m c. case source_nodes c of [] \<Rightarrow> m | n # ns \<Rightarrow> map_insert (clock_name c, n) m)
           [] reg"

definition example_host :: host where
  "example_host =
     \<lparr>stof = example_stof, read_edges = example_read_edges,
      extra_args = example_extra_args, unescape_id = example_unescape_id,
      tcl_list_string = join_words, exception_what = ''stof'', sdc_debug = False,
      design_loaded = True,
      tcl_interp = True, GetClocks = example_GetClocks, pass_run = Propagation_Run\<rparr>"

text \<open>The example design with an explicit clock of period 10 on the wire \<^verbatim>\<open>clk\<close>.\<close>

definition example_clocked :: sdc_state where
  "example_clocked =
     (initial_state example_design)
       \<lparr>registry := [\<lparr>clock_name = ''clk'', period = FloatVal 10, rising_edge = FloatVal 0,
                      falling_edge = FloatVal 5,
                      source_nodes = [(esc ''top'', esc ''clk'')], kind = EXPLICIT\<rparr>]\<rparr>"

text \<open>
  The same with a stale \<open>PROPAGATED\<close> clock at the output of the divider, as an earlier
  run on another graph may have left it.
\<close>

definition example_stale :: sdc_state where
  "example_stale =
     example_clocked
       \<lparr>registry := registry example_clocked @
          [\<lparr>clock_name = ''ghost'', period = FloatVal 7, rising_edge = FloatVal 0,
            falling_edge = FloatVal (7 / 2),
            source_nodes = [(esc ''top'', esc ''div_out'')], kind = PROPAGATED\<rparr>]\<rparr>"

section \<open>Facts about the registry\<close>

lemma find_snoc_None:
  "find P xs = None \<Longrightarrow> find P (xs @ [c]) = (if P c then Some c else None)"
  by (induction xs) (auto split: if_splits)

lemma find_replace_found:
  "find P xs = Some old \<Longrightarrow> P c \<Longrightarrow> find P (map (\<lambda>x. if x = old then c else x) xs) = Some c"
proof (induction xs)
  case Nil
  then show ?case by simp
next
  case (Cons x xs)
  show ?case
  proof (cases "P x")
    case True
    with Cons.prems show ?thesis by simp
  next
    case False
    with Cons.prems have f: "find P xs = Some old" by simp
    then have "P old" by (auto simp: find_Some_iff)
    with False have "x \<noteq> old" by auto
    with False Cons.IH[OF f Cons.prems(2)] show ?thesis by simp
  qed
qed

lemma Clock_Add_stores:
  assumes "Clock_Add n nodes p r f k reg = Inr reg'"
  shows "Registry_Get n reg' =
           Some \<lparr>clock_name = n, period = p, rising_edge = r, falling_edge = f,
                 source_nodes = nodes, kind = k\<rparr>"
proof (cases "Registry_Get n reg")
  case None
  with assms show ?thesis
    by (auto simp: Clock_Add_def Registry_Get_def Let_def find_snoc_None split: if_splits)
next
  case (Some old)
  with assms show ?thesis
    by (auto simp: Clock_Add_def Registry_Get_def Let_def find_replace_found split: if_splits)
qed

section \<open>Evaluating the examples\<close>

lemmas ex_defs = CreateClockCmd_execute_def example_host_def initial_state_def example_stof_def
  AddWirePrefix_def example_extra_args_def resolve_target_def selected_wires_of_def
  selected_module_def selected_member_def example_design_def example_top_def esc_def
  example_unescape_id_def Clock_Add_def Registry_Get_def wire_ref_of_def debug_lines_def
  cc_locals0_def Let_def select_def half32_def round_half_even_def tcl_command_def

section \<open>\<^verbatim>\<open>create_clock\<close>: the stored waveform\<close>

lemma half_exact: "1 / 2 ^ 125 \<le> p \<Longrightarrow> half (FloatVal p) = FloatVal (p / 2)"
  by (simp add: half32_def)

text \<open>
  C3, as amended: a successful \<^verbatim>\<open>create_clock\<close> call whose option loop saw no \<^verbatim>\<open>-waveform\<close>
  stores, under the name of the call (the \<^verbatim>\<open>-name\<close> argument, or the name of the first
  target wire), a clock on the target wires of the call with the period of the call, the
  rising edge 0 and, as falling edge, the \<^verbatim>\<open>float\<close> quotient of the period by 2. That
  quotient is exactly \<open>p / 2\<close> for every finite period \<open>p\<close> from \<open>2 ^ -125\<close> on. At period 10
  the stored waveform is (0, 5).
\<close>

theorem create_clock_default_waveform:
  assumes ok: "fst (CreateClockCmd_execute H args st) = None"
      and parse: "parse_options H (tl args) cc_locals0 = Inr (targets, L)"
      and nowf: "\<not> is_waveform_specified L"
      and ea: "extra_args H (AddWirePrefix targets) (design st) = Inr d1"
  shows "Registry_Get
           (if name L = []
            then unescape_id H (wire_name (snd (hd (fst (resolve_target (name L) d1)))))
            else name L)
           (registry (snd (CreateClockCmd_execute H args st))) =
         Some \<lparr>clock_name =
                 (if name L = []
                  then unescape_id H (wire_name (snd (hd (fst (resolve_target (name L) d1)))))
                  else name L),
               period = l_period L, rising_edge = FloatVal 0,
               falling_edge = half (l_period L),
               source_nodes = map wire_ref_of (fst (resolve_target (name L) d1)),
               kind = EXPLICIT\<rparr> \<and>
         \<not> le_zero (l_period L) \<and>
         (\<forall>p. l_period L = FloatVal p \<and> 1 / 2 ^ 125 \<le> p \<longrightarrow>
              half (l_period L) = FloatVal (p / 2))"
proof -
  from ok parse have len: "\<not> length args < 4" and pos: "\<not> le_zero (l_period L)"
    by (auto simp: CreateClockCmd_execute_def split: if_splits)
  obtain sel d2 where res: "resolve_target (name L) d1 = (sel, d2)"
    by (cases "resolve_target (name L) d1")
  define n where "n = (if name L = [] then unescape_id H (wire_name (snd (hd sel))) else name L)"
  define st2 where "st2 = st\<lparr>design := d2, trace := trace st @ debug_lines H (selected_wires_of d1)\<rparr>"
  from ok parse len pos ea res nowf obtain reg where
    add: "Clock_Add n (map wire_ref_of sel) (l_period L) (FloatVal 0) (half (l_period L)) EXPLICIT
            (registry st2) = Inr reg"
    and out: "CreateClockCmd_execute H args st = (None, st2\<lparr>registry := reg\<rparr>)"
    by (auto simp: CreateClockCmd_execute_def Let_def n_def st2_def split: if_splits sum.splits)
  have fsel: "fst (resolve_target (name L) d1) = sel"
    using res by simp
  have after: "registry (snd (CreateClockCmd_execute H args st)) = reg"
    using out by simp
  have exact: "\<forall>p. l_period L = FloatVal p \<and> 1 / 2 ^ 125 \<le> p \<longrightarrow>
                  half (l_period L) = FloatVal (p / 2)"
    using half_exact by metis
  show ?thesis
    unfolding fsel after n_def[symmetric]
    using Clock_Add_stores[OF add] pos exact by blast
qed

theorem create_clock_default_waveform_witness:
  "Registry_Get ''clk'' (registry (snd (CreateClockCmd_execute example_host
       [''create_clock'', ''-period'', ''10.0'', ''clk''] (initial_state example_design)))) =
   Some \<lparr>clock_name = ''clk'', period = FloatVal 10, rising_edge = FloatVal 0,
         falling_edge = FloatVal 5, source_nodes = [(esc ''top'', esc ''clk'')],
         kind = EXPLICIT\<rparr>"
proof -
  let ?d1 = "example_design\<lparr>selected_modules := [], selected_members := [(esc ''top'', esc ''clk'')]\<rparr>"
  have ok: "fst (CreateClockCmd_execute example_host
                 [''create_clock'', ''-period'', ''10.0'', ''clk''] (initial_state example_design)) = None"
    by (simp add: ex_defs)
  have parse: "parse_options example_host (tl [''create_clock'', ''-period'', ''10.0'', ''clk''])
                 cc_locals0 = Inr ([''clk''], cc_locals0\<lparr>l_period := FloatVal 10\<rparr>)"
    by (simp add: ex_defs)
  have nowf: "\<not> is_waveform_specified (cc_locals0\<lparr>l_period := FloatVal 10\<rparr>)"
    by (simp add: cc_locals0_def)
  have ea: "extra_args example_host (AddWirePrefix [''clk''])
              (design (initial_state example_design)) = Inr ?d1"
    by (simp add: ex_defs)
  have res: "map wire_ref_of (fst (resolve_target [] ?d1)) = [(esc ''top'', esc ''clk'')]"
    and first: "unescape_id example_host (wire_name (snd (hd (fst (resolve_target [] ?d1))))) = ''clk''"
    by (simp_all add: ex_defs)
  have exact: "half (FloatVal 10) = FloatVal 5"
    by (simp add: half32_def)
  from create_clock_default_waveform[OF ok parse nowf ea] res first exact show ?thesis
    by (simp add: cc_locals0_def)
qed

text \<open>
  Below \<open>2 ^ -125\<close> the quotient is rounded: at the period \<open>2 ^ -149\<close>, the least positive
  \<^verbatim>\<open>float\<close>, the call succeeds and the stored falling edge is 0, not \<open>2 ^ -150\<close>.
\<close>

theorem create_clock_subnormal_period_counterexample:
  "fst (CreateClockCmd_execute example_host
          [''create_clock'', ''-period'', ''0x1p-149'', ''clk''] (initial_state example_design)) = None \<and>
   parse_options example_host (tl [''create_clock'', ''-period'', ''0x1p-149'', ''clk'']) cc_locals0 =
     Inr ([''clk''], cc_locals0\<lparr>l_period := FloatVal (1 / 2 ^ 149)\<rparr>) \<and>
   (0::real) < 1 / 2 ^ 149 \<and>
   registry (snd (CreateClockCmd_execute example_host
          [''create_clock'', ''-period'', ''0x1p-149'', ''clk''] (initial_state example_design))) =
     [\<lparr>clock_name = ''clk'', period = FloatVal (1 / 2 ^ 149), rising_edge = FloatVal 0,
       falling_edge = FloatVal 0, source_nodes = [(esc ''top'', esc ''clk'')],
       kind = EXPLICIT\<rparr>] \<and>
   FloatVal 0 \<noteq> FloatVal (1 / 2 ^ 149 / 2)"
  by (simp add: ex_defs)

section \<open>\<^verbatim>\<open>create_clock\<close>: the period check\<close>

text \<open>
  C4, as amended: a \<^verbatim>\<open>create_clock\<close> call of at least four words whose option loop ends
  with a period that is not positive, also when \<^verbatim>\<open>-period\<close> is absent and the period is
  the initial 0, fails with \<open>InvalidPeriod\<close> and leaves the state, and so the registry, as
  it was.
\<close>

theorem create_clock_invalid_period:
  assumes "4 \<le> length args"
      and "parse_options H (tl args) cc_locals0 = Inr (targets, L)"
      and "le_zero (l_period L)"
  shows "CreateClockCmd_execute H args st = (Some InvalidPeriod, st)"
  using assms by (simp add: CreateClockCmd_execute_def)

theorem create_clock_invalid_period_witness:
  "CreateClockCmd_execute example_host [''create_clock'', ''-name'', ''sys'', ''clk'', ''buf_out'']
     (initial_state example_design) = (Some InvalidPeriod, initial_state example_design)"
proof -
  have len: "4 \<le> length [''create_clock'', ''-name'', ''sys'', ''clk'', ''buf_out'']" by simp
  have parse: "parse_options example_host (tl [''create_clock'', ''-name'', ''sys'', ''clk'', ''buf_out''])
                 cc_locals0 = Inr ([''clk'', ''buf_out''], cc_locals0\<lparr>name := ''sys''\<rparr>)"
    by simp
  have per: "le_zero (l_period (cc_locals0\<lparr>name := ''sys''\<rparr>))" by (simp add: cc_locals0_def)
  from create_clock_invalid_period[OF len parse per] show ?thesis .
qed

text \<open>A call of fewer than four words fails at line 222 and leaves the state as it is.\<close>

lemma create_clock_short_call:
  "length args < 4 \<Longrightarrow>
   CreateClockCmd_execute H args st = (Some (UsageError ''Incorrect number of arguments''), st)"
  by (simp add: CreateClockCmd_execute_def)

text \<open>
  So the period is not looked at: with \<^verbatim>\<open>-period 0\<close> and no target the error is the usage
  error, not \<open>InvalidPeriod\<close>.
\<close>

theorem create_clock_short_call_counterexample:
  "parse_options example_host (tl [''create_clock'', ''-period'', ''0'']) cc_locals0 =
     Inr ([], cc_locals0) \<and>
   le_zero (l_period cc_locals0) \<and>
   CreateClockCmd_execute example_host [''create_clock'', ''-period'', ''0'']
     (initial_state example_design) =
     (Some (UsageError ''Incorrect number of arguments''), initial_state example_design) \<and>
   fst (CreateClockCmd_execute example_host [''create_clock'', ''-period'', ''0'']
     (initial_state example_design)) \<noteq> Some InvalidPeriod"
  by (simp add: CreateClockCmd_execute_def example_host_def example_stof_def cc_locals0_def)

section \<open>\<^verbatim>\<open>create_clock\<close>: the empty target\<close>

text \<open>
  C7: when a \<^verbatim>\<open>create_clock\<close> call reaches the resolution of its target (four words or
  more, options read, period positive, target arguments evaluated by the host) and finds
  no selected wire, and the fallback finds no wire whose name equals the clock name, the
  command fails with \<open>SelectionEmptyError\<close> and the registry is as before.
\<close>

theorem create_clock_empty_target:
  assumes "4 \<le> length args"
      and "parse_options H (tl args) cc_locals0 = Inr (targets, L)"
      and "\<not> le_zero (l_period L)"
      and "extra_args H (AddWirePrefix targets) (design st) = Inr d1"
      and "selected_wires_of d1 = []"
      and "fst (auto_select (name L) (modules d1) ([], d1)) = []"
  shows "fst (CreateClockCmd_execute H args st) = Some SelectionEmptyError \<and>
         registry (snd (CreateClockCmd_execute H args st)) = registry st"
  using assms
  by (cases "auto_select (name L) (modules d1) ([], d1)")
     (simp add: CreateClockCmd_execute_def resolve_target_def Let_def)

theorem create_clock_empty_target_witness:
  "fst (CreateClockCmd_execute example_host [''create_clock'', ''-period'', ''10'', ''nowire'']
          (initial_state example_design)) = Some SelectionEmptyError \<and>
   registry (snd (CreateClockCmd_execute example_host [''create_clock'', ''-period'', ''10'', ''nowire'']
          (initial_state example_design))) = []"
proof -
  let ?d1 = "example_design\<lparr>selected_modules := [], selected_members := []\<rparr>"
  have len: "4 \<le> length [''create_clock'', ''-period'', ''10'', ''nowire'']" by simp
  have parse: "parse_options example_host (tl [''create_clock'', ''-period'', ''10'', ''nowire''])
                 cc_locals0 = Inr ([''nowire''], cc_locals0\<lparr>l_period := FloatVal 10\<rparr>)"
    by (simp add: ex_defs)
  have per: "\<not> le_zero (l_period (cc_locals0\<lparr>l_period := FloatVal 10\<rparr>))" by simp
  have ea: "extra_args example_host (AddWirePrefix [''nowire''])
              (design (initial_state example_design)) = Inr ?d1"
    by (simp add: ex_defs)
  have sel: "selected_wires_of ?d1 = []" by (simp add: ex_defs)
  have fb: "fst (auto_select (name (cc_locals0\<lparr>l_period := FloatVal 10\<rparr>)) (modules ?d1) ([], ?d1)) = []"
    by (simp add: ex_defs)
  from create_clock_empty_target[OF len parse per ea sel fb] show ?thesis
    by (simp add: initial_state_def)
qed

section \<open>\<^verbatim>\<open>propagate_clocks\<close>: the command\<close>

lemma run_passes_two:
  "run_passes H passes st =
     (let r1 = pass_run H BufferPropagation (design st, registry st);
          r2 = pass_run H ClockDividerPropagation (fst r1)
      in st\<lparr>design := fst (fst r2), registry := snd (fst r2),
             trace := trace st @ [PassRun BufferPropagation] @ map Warning (snd r1) @
                      [PassRun ClockDividerPropagation] @ map Warning (snd r2)\<rparr>)"
  by (simp add: passes_def Let_def split: prod.splits)

text \<open>
  C5: on a design without a top module \<^verbatim>\<open>propagate_clocks\<close> fails with \<open>NoTopModule\<close>;
  it has logged at most the warning about its arguments, the design and the registry are
  untouched, and the trace holds no call into the engine that was not there before.
\<close>

theorem propagate_clocks_no_top_module:
  assumes "top_module (design st) = None"
  shows "PropagateClocksCmd_execute H args st =
           (Some NoTopModule, st\<lparr>trace := trace st @ arg_warning args\<rparr>) \<and>
         filter is_engine_call (trace (snd (PropagateClocksCmd_execute H args st))) =
           filter is_engine_call (trace st)"
  using assms by (simp add: PropagateClocksCmd_execute_def arg_warning_def)

theorem propagate_clocks_no_top_module_witness:
  "PropagateClocksCmd_execute example_host [''propagate_clocks'']
     (initial_state (example_design\<lparr>top_module := None\<rparr>)) =
     (Some NoTopModule, initial_state (example_design\<lparr>top_module := None\<rparr>))"
proof -
  have t: "top_module (design (initial_state (example_design\<lparr>top_module := None\<rparr>))) = None"
    by (simp add: initial_state_def)
  from propagate_clocks_no_top_module[OF t, of example_host "[''propagate_clocks'']"]
  show ?thesis by (simp add: arg_warning_def initial_state_def)
qed



section \<open>\<^verbatim>\<open>get_clocks\<close>\<close>

text \<open>
  C9: when the design is loaded, the interpreter is there, the switches are accepted and
  \<^verbatim>\<open>Clocks::GetClocks\<close> returns no clock, \<^verbatim>\<open>get_clocks\<close> succeeds, its result is the empty
  list, and it logs the warning \<^verbatim>\<open>No clocks found in design\<close> (and a second one at the end).
\<close>

theorem get_clocks_no_clocks:
  assumes "design_loaded H" and "tcl_interp H"
      and "parse_switches (tl args) (False, []) = Inr sw"
      and "GetClocks H (design st) (registry st) = []"
  shows "fst (GetClocksCmd_execute H args st) = None \<and>
         tcl_result (snd (GetClocksCmd_execute H args st)) = TclList [] \<and>
         trace (snd (GetClocksCmd_execute H args st)) =
           trace st @ [Warning ''No clocks found in design''] @
           map Log (extract_list (tcl_list_string H [])) @
           [Warning ''No clocks found in design after processing.'']"
  using assms by (cases sw) (simp add: GetClocksCmd_execute_def logical_names_def)

theorem get_clocks_no_clocks_witness:
  "fst (GetClocksCmd_execute example_host [''get_clocks''] (initial_state example_design)) = None \<and>
   tcl_result (snd (GetClocksCmd_execute example_host [''get_clocks'']
                      (initial_state example_design))) = TclList [] \<and>
   trace (snd (GetClocksCmd_execute example_host [''get_clocks'']
                 (initial_state example_design))) =
     [Warning ''No clocks found in design'',
      Warning ''No clocks found in design after processing.'']"
proof -
  have a: "design_loaded example_host" and b: "tcl_interp example_host"
    by (simp_all add: example_host_def)
  have c: "parse_switches (tl [''get_clocks'']) (False, []) = Inr (False, [], [])" by simp
  have d: "GetClocks example_host (design (initial_state example_design))
             (registry (initial_state example_design)) = []"
    by (simp add: example_host_def example_GetClocks_def initial_state_def)
  from get_clocks_no_clocks[OF a b c d] show ?thesis
    by (simp add: initial_state_def example_host_def extract_list_def)
qed

lemma create_clock_keeps_map:
  "logical_to_wire_map (snd (CreateClockCmd_execute H args st)) = logical_to_wire_map st"
  by (simp add: CreateClockCmd_execute_def Let_def split: sum.splits prod.splits)

lemma get_clocks_keeps_map:
  "logical_to_wire_map (snd (GetClocksCmd_execute H args st)) = logical_to_wire_map st"
  by (simp add: GetClocksCmd_execute_def Let_def split: sum.splits prod.splits)

lemma propagate_clocks_keeps_map:
  "logical_to_wire_map (snd (PropagateClocksCmd_execute H args st)) = logical_to_wire_map st"
  by (simp add: PropagateClocksCmd_execute_def run_passes_two Let_def)

lemma get_ports_keeps_map:
  "logical_to_wire_map (snd (GetPortsCmd_execute H args st)) = logical_to_wire_map st"
  by (simp add: GetPortsCmd_execute_def split: option.splits)

lemma execute_keeps_map:
  "logical_to_wire_map (snd (execute H c st)) = logical_to_wire_map st"
  by (cases c)
     (simp_all add: get_ports_keeps_map create_clock_keeps_map get_clocks_keeps_map
        propagate_clocks_keeps_map)

lemma tcl_command_keeps_map:
  "logical_to_wire_map (snd (tcl_command H c st)) = logical_to_wire_map st"
  using execute_keeps_map[of H c st]
  by (cases "execute H c st") (auto simp: tcl_command_def split: option.splits)

lemma run_session_keeps_map:
  "logical_to_wire_map (run_session H cs st) = logical_to_wire_map st"
  by (induction cs arbitrary: st) (simp_all add: tcl_command_keeps_map)

lemma logical_names_filter:
  "logical_names H m clocks =
     map (\<lambda>kw. the (map_of m (unescape_id H (snd (snd kw)))))
         (filter (\<lambda>kw. unescape_id H (snd (snd kw)) \<in> fst ` set m) clocks)"
  by (induction clocks)
     (auto simp: logical_names_def dom_map_of_conv_image_fst[symmetric] domIff split: option.splits)

lemma get_clocks_result:
  "fst (GetClocksCmd_execute H args st) = None \<Longrightarrow>
   tcl_result (snd (GetClocksCmd_execute H args st)) =
     TclList (logical_names H (logical_to_wire_map st) (GetClocks H (design st) (registry st)))"
  by (auto simp: GetClocksCmd_execute_def Let_def split: sum.splits prod.splits if_splits)

text \<open>
  C10: the result of a successful \<^verbatim>\<open>get_clocks\<close> lists, for exactly the clocks whose wire
  name has an entry in \<^verbatim>\<open>logical_to_wire_map\<close>, the logical name of that entry. No command
  writes the map, so in every session, from the state of the freshly loaded plugin, the
  map is empty and a successful \<^verbatim>\<open>get_clocks\<close> returns the empty list, whatever clocks
  \<^verbatim>\<open>create_clock\<close> has made.
\<close>

theorem get_clocks_omits_created_clocks:
  "(fst (GetClocksCmd_execute H args st) = None \<longrightarrow>
      tcl_result (snd (GetClocksCmd_execute H args st)) =
        TclList
          (map (\<lambda>kw. the (map_of (logical_to_wire_map st) (unescape_id H (snd (snd kw)))))
               (filter (\<lambda>kw. unescape_id H (snd (snd kw)) \<in> fst ` set (logical_to_wire_map st))
                       (GetClocks H (design st) (registry st))))) \<and>
   logical_to_wire_map (run_session H cmds (initial_state d)) = [] \<and>
   (fst (GetClocksCmd_execute H args (run_session H cmds (initial_state d))) = None \<longrightarrow>
      tcl_result (snd (GetClocksCmd_execute H args (run_session H cmds (initial_state d)))) =
        TclList [])"
proof -
  have m: "logical_to_wire_map (run_session H cmds (initial_state d)) = []"
    by (simp add: run_session_keeps_map initial_state_def)
  show ?thesis
    using get_clocks_result[of H args st] get_clocks_result[of H args "run_session H cmds (initial_state d)"]
    by (simp add: m logical_names_filter)
qed

theorem get_clocks_omits_created_clocks_witness:
  "registry (run_session example_host
       [Create_clock [''create_clock'', ''-period'', ''10.0'', ''clk'']]
       (initial_state example_design)) \<noteq> [] \<and>
   fst (GetClocksCmd_execute example_host [''get_clocks'']
          (run_session example_host [Create_clock [''create_clock'', ''-period'', ''10.0'', ''clk'']]
             (initial_state example_design))) = None \<and>
   tcl_result (snd (GetClocksCmd_execute example_host [''get_clocks'']
          (run_session example_host [Create_clock [''create_clock'', ''-period'', ''10.0'', ''clk'']]
             (initial_state example_design)))) = TclList []"
proof -
  have ok: "fst (GetClocksCmd_execute example_host [''get_clocks''] st) = None" for st
    by (simp add: GetClocksCmd_execute_def example_host_def Let_def)
  have r: "registry (run_session example_host
       [Create_clock [''create_clock'', ''-period'', ''10.0'', ''clk'']]
       (initial_state example_design)) \<noteq> []"
    by (simp add: ex_defs)
  have "fst (GetClocksCmd_execute example_host [''get_clocks'']
          (run_session example_host [Create_clock [''create_clock'', ''-period'', ''10.0'', ''clk'']]
             (initial_state example_design))) = None \<longrightarrow>
        tcl_result (snd (GetClocksCmd_execute example_host [''get_clocks'']
          (run_session example_host [Create_clock [''create_clock'', ''-period'', ''10.0'', ''clk'']]
             (initial_state example_design)))) = TclList []"
    using get_clocks_omits_created_clocks[of example_host "[''get_clocks'']"
      "initial_state example_design"
      "[Create_clock [''create_clock'', ''-period'', ''10.0'', ''clk'']]" example_design]
    by (elim conjE)
  with ok r show ?thesis by simp
qed

text \<open>
  The switches \<^verbatim>\<open>-include_generated_clocks\<close> and \<^verbatim>\<open>-of\<close> and the patterns are read and then
  ignored: two invocations whose arguments are accepted do the same.
\<close>

lemma get_clocks_ignores_filters:
  assumes "parse_switches (tl args) (False, []) = Inr sw"
      and "parse_switches (tl args') (False, []) = Inr sw'"
  shows "GetClocksCmd_execute H args st = GetClocksCmd_execute H args' st"
  using assms by (cases sw; cases sw') (simp add: GetClocksCmd_execute_def)

text \<open>
  C2: by the spec \<^verbatim>\<open>get_clocks\<close> returns the clocks of the registry, filtered, each name
  once, in insertion order. In the session \<^verbatim>\<open>create_clock -period 10.0 clk\<close>, \<^verbatim>\<open>get_clocks\<close>
  on the example design the registry holds the clock \<^verbatim>\<open>clk\<close>, which the spec's query lists,
  and the command succeeds with the empty list.
\<close>

theorem get_clocks_misses_created_clock:
  "map clock_name (registry (run_session example_host
       [Create_clock [''create_clock'', ''-period'', ''10.0'', ''clk'']]
       (initial_state example_design))) = [''clk''] \<and>
   GetClocks_spec False None None (registry (run_session example_host
       [Create_clock [''create_clock'', ''-period'', ''10.0'', ''clk'']]
       (initial_state example_design))) = [''clk''] \<and>
   fst (GetClocksCmd_execute example_host [''get_clocks'']
          (run_session example_host
             [Create_clock [''create_clock'', ''-period'', ''10.0'', ''clk'']]
             (initial_state example_design))) = None \<and>
   tcl_result (snd (GetClocksCmd_execute example_host [''get_clocks'']
          (run_session example_host
             [Create_clock [''create_clock'', ''-period'', ''10.0'', ''clk'']]
             (initial_state example_design)))) = TclList []"
  by (simp add: ex_defs GetClocks_spec_def GetClocksCmd_execute_def logical_names_def
        example_GetClocks_def)

section \<open>\<^verbatim>\<open>create_clock\<close>: what happens to the selection\<close>













section \<open>The propagation engine: running it again\<close>

lemma filter_replace_outside:
  "\<not> Q old \<Longrightarrow> \<not> Q c \<Longrightarrow> filter Q (map (\<lambda>x. if x = old then c else x) xs) = filter Q xs"
  by (induction xs) auto

lemma Clock_Add_PROPAGATED_keeps:
  assumes "Clock_Add n nodes p r f PROPAGATED reg = Inr reg'"
  shows "filter (\<lambda>c. kind c \<noteq> PROPAGATED) reg' = filter (\<lambda>c. kind c \<noteq> PROPAGATED) reg"
proof (cases "Registry_Get n reg")
  case None
  with assms show ?thesis
    by (auto simp: Clock_Add_def Let_def split: if_splits)
next
  case (Some old)
  with assms show ?thesis
    by (auto simp: Clock_Add_def Let_def filter_replace_outside split: if_splits)
qed

lemma record_outputs_keeps:
  "filter (\<lambda>c. kind c \<noteq> PROPAGATED) (fst (snd (record_outputs t shape outs (new, reg, ws)))) =
   filter (\<lambda>c. kind c \<noteq> PROPAGATED) reg"
proof (induction outs arbitrary: new reg ws)
  case Nil
  then show ?case by simp
next
  case (Cons out outs)
  obtain p r f where shape: "shape = (p, r, f)" by (cases shape)
  show ?case
  proof (cases "FindByNode (t, out) reg")
    case (Cons c cs)
    then show ?thesis using Cons.IH shape by simp
  next
    case Nil
    show ?thesis
    proof (cases "Clock_Add out [(t, out)] p r f PROPAGATED reg")
      case (Inl e)
      with Nil shape Cons.IH show ?thesis by simp
    next
      case (Inr reg')
      with Nil shape Cons.IH Clock_Add_PROPAGATED_keeps[OF Inr] show ?thesis by simp
    qed
  qed
qed

lemma visit_cells_keeps:
  "filter (\<lambda>c. kind c \<noteq> PROPAGATED) (fst (snd (visit_cells p t w c es (new, reg, ws)))) =
   filter (\<lambda>c. kind c \<noteq> PROPAGATED) reg"
proof (induction es arbitrary: new reg ws)
  case Nil
  then show ?case by simp
next
  case (Cons e es)
  show ?case
  proof (cases "w \<in> set (cell_inputs e)")
    case False
    with Cons.IH show ?thesis by simp
  next
    case True
    show ?thesis
    proof (cases "derive p (cell_kind e) c")
      case None
      with True Cons.IH show ?thesis by simp
    next
      case (Some shape)
      obtain new' reg' ws' where ro: "record_outputs t shape (cell_outputs e) (new, reg, ws) = (new', reg', ws')"
        by (cases "record_outputs t shape (cell_outputs e) (new, reg, ws)")
      from record_outputs_keeps[of t shape "cell_outputs e" new reg ws] ro
      have "filter (\<lambda>c. kind c \<noteq> PROPAGATED) reg' = filter (\<lambda>c. kind c \<noteq> PROPAGATED) reg" by simp
      with True Some ro Cons.IH[of new' reg' ws'] show ?thesis by simp
    qed
  qed
qed

lemma traverse_keeps:
  "filter (\<lambda>c. kind c \<noteq> PROPAGATED) (fst (snd (traverse p topm queue visited (reg, ws)))) =
   filter (\<lambda>c. kind c \<noteq> PROPAGATED) reg"
proof (induction p topm queue visited "(reg, ws)" arbitrary: reg ws rule: traverse.induct)
  case (1 p topm visited)
  then show ?case by simp
next
  case (2 p topm n c queue visited reg ws)
  show ?case
  proof (cases "n \<notin> set (node_list topm)")
    case True
    with "2.hyps"(1) show ?thesis by simp
  next
    case inside: False
    show ?thesis
    proof (cases "n \<in> set visited")
      case True
      with inside "2.hyps"(2) show ?thesis by simp
    next
      case False
      obtain new reg' ws' where v:
        "visit_cells p (mod_name topm) (snd n) c (cells topm) ([], reg, ws) = (new, reg', ws')"
        by (cases "visit_cells p (mod_name topm) (snd n) c (cells topm) ([], reg, ws)")
      from visit_cells_keeps[of p "mod_name topm" "snd n" c "cells topm" "[]" reg ws] v
      have k: "filter (\<lambda>c. kind c \<noteq> PROPAGATED) reg' = filter (\<lambda>c. kind c \<noteq> PROPAGATED) reg" by simp
      from "2.hyps"(3)[OF inside False v[symmetric] refl] k inside False v
      show ?thesis by simp
    qed
  qed
qed

lemma traverse_clocks_keeps:
  "filter (\<lambda>c. kind c \<noteq> PROPAGATED) (fst (snd (traverse_clocks p topm cs (visited, reg, ws)))) =
   filter (\<lambda>c. kind c \<noteq> PROPAGATED) reg"
proof (induction cs arbitrary: visited reg ws)
  case Nil
  then show ?case by simp
next
  case (Cons c cs)
  obtain visited' reg' ws' where
    t: "traverse p topm (map (\<lambda>n. (n, c)) (source_nodes c)) visited (reg, ws) = (visited', reg', ws')"
    by (cases "traverse p topm (map (\<lambda>n. (n, c)) (source_nodes c)) visited (reg, ws)")
  from traverse_keeps[of p topm "map (\<lambda>n. (n, c)) (source_nodes c)" visited reg ws] t
  have "filter (\<lambda>c. kind c \<noteq> PROPAGATED) reg' = filter (\<lambda>c. kind c \<noteq> PROPAGATED) reg"
    by simp
  with Cons.IH[of visited' reg' ws'] t show ?case by simp
qed

lemma propagate_keeps:
  "filter (\<lambda>c. kind c \<noteq> PROPAGATED) (fst (propagate p d reg)) = filter (\<lambda>c. kind c \<noteq> PROPAGATED) reg"
  by (simp add: propagate_def traverse_clocks_keeps split: option.splits)

lemma engine_idem: "engine d (engine d reg) = engine d reg"
proof -
  have "RemoveAllOfKind PROPAGATED (engine d reg) = RemoveAllOfKind PROPAGATED reg"
    by (simp add: RemoveAllOfKind_def engine_def propagate_keeps)
  then show ?thesis by (simp add: engine_def)
qed

lemma execute_engine:
  "PropagateClocksCmd_execute (with_engine H) args st = (r, st') \<Longrightarrow>
     design st' = design st \<and>
     registry st' = (if top_module (design st) = None then registry st
                     else engine (design st) (registry st))"
  by (auto simp: PropagateClocksCmd_execute_def run_passes_two Let_def with_engine_def
        Propagation_Run_def engine_def split: if_splits prod.splits)

lemma engine_discards: "engine d reg = engine d (RemoveAllOfKind PROPAGATED reg)"
  by (simp add: engine_def RemoveAllOfKind_def)

lemma engine_keeps_others:
  "filter (\<lambda>c. kind c \<noteq> PROPAGATED) (engine d reg) = filter (\<lambda>c. kind c \<noteq> PROPAGATED) reg"
  by (simp add: engine_def propagate_keeps RemoveAllOfKind_def)

lemma example_engine_run:
  "engine example_design (registry example_stale) =
     [\<lparr>clock_name = ''clk'', period = FloatVal 10, rising_edge = FloatVal 0,
       falling_edge = FloatVal 5, source_nodes = [(esc ''top'', esc ''clk'')],
       kind = EXPLICIT\<rparr>,
      \<lparr>clock_name = esc ''buf_out'', period = FloatVal 10, rising_edge = FloatVal 0,
       falling_edge = FloatVal 5, source_nodes = [(esc ''top'', esc ''buf_out'')],
       kind = PROPAGATED\<rparr>,
      \<lparr>clock_name = esc ''div_out'', period = FloatVal 20, rising_edge = FloatVal 0,
       falling_edge = FloatVal 10, source_nodes = [(esc ''top'', esc ''div_out'')],
       kind = PROPAGATED\<rparr>]"
  by (simp add: engine_def example_stale_def example_clocked_def initial_state_def propagate_def
        top_of_def example_design_def example_top_def esc_def RemoveAllOfKind_def node_list_def
        FindByNode_def Clock_Add_def Registry_Get_def Let_def)

text \<open>
  C1: with the engine of the spec, a successful \<^verbatim>\<open>propagate_clocks\<close> discards the
  \<open>PROPAGATED\<close> clocks it finds: its registry is the one the run gives from the registry
  without them, and the clocks that are not \<open>PROPAGATED\<close> are those from before, in their
  order. A second \<^verbatim>\<open>propagate_clocks\<close> on the state the first one left gives the same
  registry, and so the same \<open>PROPAGATED\<close> clocks in the same order.
\<close>

theorem propagate_clocks_idempotent:
  "(fst (PropagateClocksCmd_execute (with_engine H) args st) = None \<longrightarrow>
      registry (snd (PropagateClocksCmd_execute (with_engine H) args st)) =
        registry (snd (PropagateClocksCmd_execute (with_engine H) args
                         (st\<lparr>registry := RemoveAllOfKind PROPAGATED (registry st)\<rparr>))) \<and>
      filter (\<lambda>c. kind c \<noteq> PROPAGATED)
        (registry (snd (PropagateClocksCmd_execute (with_engine H) args st))) =
      filter (\<lambda>c. kind c \<noteq> PROPAGATED) (registry st)) \<and>
   registry (snd (PropagateClocksCmd_execute (with_engine H) args'
               (snd (PropagateClocksCmd_execute (with_engine H) args st)))) =
   registry (snd (PropagateClocksCmd_execute (with_engine H) args st)) \<and>
   filter (\<lambda>c. kind c = PROPAGATED)
     (registry (snd (PropagateClocksCmd_execute (with_engine H) args'
               (snd (PropagateClocksCmd_execute (with_engine H) args st))))) =
   filter (\<lambda>c. kind c = PROPAGATED)
     (registry (snd (PropagateClocksCmd_execute (with_engine H) args st)))"
proof -
  let ?clean = "st\<lparr>registry := RemoveAllOfKind PROPAGATED (registry st)\<rparr>"
  obtain r1 st1 where e1: "PropagateClocksCmd_execute (with_engine H) args st = (r1, st1)"
    by (cases "PropagateClocksCmd_execute (with_engine H) args st")
  obtain r2 st2 where e2: "PropagateClocksCmd_execute (with_engine H) args' st1 = (r2, st2)"
    by (cases "PropagateClocksCmd_execute (with_engine H) args' st1")
  obtain r3 st3 where e3: "PropagateClocksCmd_execute (with_engine H) args ?clean = (r3, st3)"
    by (cases "PropagateClocksCmd_execute (with_engine H) args ?clean")
  have top: "top_module (design st) \<noteq> None" if "r1 = None"
    using that e1 by (auto simp: PropagateClocksCmd_execute_def Let_def split: if_splits)
  have discard: "registry st1 = registry st3" if "r1 = None"
    using execute_engine[OF e1] execute_engine[OF e3] top[OF that] engine_discards[of "design st"]
    by simp
  have others: "filter (\<lambda>c. kind c \<noteq> PROPAGATED) (registry st1) =
                filter (\<lambda>c. kind c \<noteq> PROPAGATED) (registry st)" if "r1 = None"
    using execute_engine[OF e1] top[OF that] by (simp add: engine_keeps_others)
  from execute_engine[OF e1] execute_engine[OF e2]
  have again: "registry st2 = registry st1" by (simp add: engine_idem)
  from discard others again e1 e2 e3 show ?thesis by simp
qed

theorem propagate_clocks_idempotent_witness:
  "filter (\<lambda>c. kind c = PROPAGATED) (registry example_stale) =
     [\<lparr>clock_name = ''ghost'', period = FloatVal 7, rising_edge = FloatVal 0,
       falling_edge = FloatVal (7 / 2), source_nodes = [(esc ''top'', esc ''div_out'')],
       kind = PROPAGATED\<rparr>] \<and>
   registry (snd (PropagateClocksCmd_execute (with_engine example_host) [''propagate_clocks'']
                example_stale)) =
   registry (snd (PropagateClocksCmd_execute (with_engine example_host) [''propagate_clocks'']
                (example_stale\<lparr>registry := RemoveAllOfKind PROPAGATED (registry example_stale)\<rparr>))) \<and>
   filter (\<lambda>c. kind c = PROPAGATED)
     (registry (snd (PropagateClocksCmd_execute (with_engine example_host) [''propagate_clocks'']
                example_stale))) =
     [\<lparr>clock_name = esc ''buf_out'', period = FloatVal 10, rising_edge = FloatVal 0,
       falling_edge = FloatVal 5, source_nodes = [(esc ''top'', esc ''buf_out'')],
       kind = PROPAGATED\<rparr>,
      \<lparr>clock_name = esc ''div_out'', period = FloatVal 20, rising_edge = FloatVal 0,
       falling_edge = FloatVal 10, source_nodes = [(esc ''top'', esc ''div_out'')],
       kind = PROPAGATED\<rparr>] \<and>
   filter (\<lambda>c. kind c = PROPAGATED)
     (registry (snd (PropagateClocksCmd_execute (with_engine example_host) [''propagate_clocks'']
        (snd (PropagateClocksCmd_execute (with_engine example_host) [''propagate_clocks'']
                example_stale))))) =
     [\<lparr>clock_name = esc ''buf_out'', period = FloatVal 10, rising_edge = FloatVal 0,
       falling_edge = FloatVal 5, source_nodes = [(esc ''top'', esc ''buf_out'')],
       kind = PROPAGATED\<rparr>,
      \<lparr>clock_name = esc ''div_out'', period = FloatVal 20, rising_edge = FloatVal 0,
       falling_edge = FloatVal 10, source_nodes = [(esc ''top'', esc ''div_out'')],
       kind = PROPAGATED\<rparr>]"
proof -
  have dsg: "design example_stale = example_design"
    by (simp add: example_stale_def example_clocked_def initial_state_def)
  have top: "top_module (design example_stale) \<noteq> None"
    by (simp add: dsg example_design_def)
  have ok: "fst (PropagateClocksCmd_execute (with_engine example_host) [''propagate_clocks'']
                   example_stale) = None"
    using top by (simp add: PropagateClocksCmd_execute_def Let_def)
  have once: "registry (snd (PropagateClocksCmd_execute (with_engine example_host)
                  [''propagate_clocks''] example_stale)) =
              engine example_design (registry example_stale)"
    using execute_engine[OF surjective_pairing, of example_host "[''propagate_clocks'']"
            example_stale] top
    by (auto simp: dsg)
  have stale: "filter (\<lambda>c. kind c = PROPAGATED) (registry example_stale) =
     [\<lparr>clock_name = ''ghost'', period = FloatVal 7, rising_edge = FloatVal 0,
       falling_edge = FloatVal (7 / 2), source_nodes = [(esc ''top'', esc ''div_out'')],
       kind = PROPAGATED\<rparr>]"
    by (simp add: example_stale_def example_clocked_def)
  note run = propagate_clocks_idempotent[of example_host "[''propagate_clocks'']" example_stale
         "[''propagate_clocks'']"]
  from run ok have discard:
    "registry (snd (PropagateClocksCmd_execute (with_engine example_host) [''propagate_clocks'']
                example_stale)) =
     registry (snd (PropagateClocksCmd_execute (with_engine example_host) [''propagate_clocks'']
                (example_stale\<lparr>registry := RemoveAllOfKind PROPAGATED (registry example_stale)\<rparr>)))"
    by blast
  from run have again:
    "registry (snd (PropagateClocksCmd_execute (with_engine example_host) [''propagate_clocks'']
        (snd (PropagateClocksCmd_execute (with_engine example_host) [''propagate_clocks'']
                example_stale)))) =
     registry (snd (PropagateClocksCmd_execute (with_engine example_host) [''propagate_clocks'']
                example_stale))"
    by blast
  have first: "filter (\<lambda>c. kind c = PROPAGATED)
     (registry (snd (PropagateClocksCmd_execute (with_engine example_host) [''propagate_clocks'']
                example_stale))) =
     [\<lparr>clock_name = esc ''buf_out'', period = FloatVal 10, rising_edge = FloatVal 0,
       falling_edge = FloatVal 5, source_nodes = [(esc ''top'', esc ''buf_out'')],
       kind = PROPAGATED\<rparr>,
      \<lparr>clock_name = esc ''div_out'', period = FloatVal 20, rising_edge = FloatVal 0,
       falling_edge = FloatVal 10, source_nodes = [(esc ''top'', esc ''div_out'')],
       kind = PROPAGATED\<rparr>]"
    by (simp add: once example_engine_run)
  from stale discard first again show ?thesis
    by (simp only: simp_thms)
qed

end
